theory Spec2Isabelle
  imports Main
begin

section \<open>JavaScript values, errors and the transport\<close>

text \<open>
  The service of \<^verbatim>\<open>analytic_service.ts\<close> handles loosely typed payloads, so the values it
  passes around are modelled by one datatype of JavaScript values. Numbers are the integers
  (status codes, timestamps); an object is the list of its own properties.
\<close>

datatype json =
    JUndefined
  | JNull
  | JBool bool
  | JNum int
  | JStr string
  | JArr "json list"
  | JObj "(string \<times> json) list"

text \<open>Thrown values: \<^verbatim>\<open>new Error(msg)\<close>, \<^verbatim>\<open>new TypeError(msg)\<close>.\<close>

datatype error = Error string | TypeError string

text \<open>Decimal rendering of a number, as a template literal does it.\<close>

fun digits_of_nat :: "nat \<Rightarrow> string" where
  "digits_of_nat n =
     (if n < 10 then [char_of (48 + n)]
      else digits_of_nat (n div 10) @ [char_of (48 + n mod 10)])"

declare digits_of_nat.simps [simp del]

definition number_toString :: "int \<Rightarrow> string" where
  "number_toString i =
     (if i < 0 then ''-'' @ digits_of_nat (nat (- i)) else digits_of_nat (nat i))"

text \<open>\<^verbatim>\<open>Array.prototype.join\<close> on an array of strings.\<close>

fun join :: "string \<Rightarrow> string list \<Rightarrow> string" where
  "join sep [] = []"
| "join sep [x] = x"
| "join sep (x # y # ys) = x @ sep @ join sep (y # ys)"

text \<open>String conversion of a value inside a template literal or a concatenation.\<close>

fun toString :: "json \<Rightarrow> string" where
  "toString JUndefined = ''undefined''"
| "toString JNull = ''null''"
| "toString (JBool b) = (if b then ''true'' else ''false'')"
| "toString (JNum n) = number_toString n"
| "toString (JStr s) = s"
| "toString (JArr xs) =
     join '','' (map (\<lambda>x. if x = JUndefined \<or> x = JNull then [] else toString x) xs)"
| "toString (JObj fs) = ''[object Object]''"

text \<open>
  Property read \<^verbatim>\<open>v.name\<close>: a TypeError on \<^verbatim>\<open>undefined\<close> and \<^verbatim>\<open>null\<close>, the own property of
  an object, \<^verbatim>\<open>undefined\<close> where there is none.
\<close>

fun member :: "json \<Rightarrow> string \<Rightarrow> error + json" where
  "member JUndefined name =
     Inl (TypeError (''Cannot read property '' @ name @ '' of undefined''))"
| "member JNull name =
     Inl (TypeError (''Cannot read property '' @ name @ '' of null''))"
| "member (JObj fs) name =
     (case map_of fs name of None \<Rightarrow> Inr JUndefined | Some v \<Rightarrow> Inr v)"
| "member v name = Inr JUndefined"

text \<open>\<^verbatim>\<open>String.prototype.toUpperCase\<close> on ASCII letters.\<close>

definition upper_char :: "char \<Rightarrow> char" where
  "upper_char c =
     (let n = (of_char c :: nat) in if 97 \<le> n \<and> n \<le> 122 then char_of (n - 32) else c)"

definition toUpperCase :: "string \<Rightarrow> string" where
  "toUpperCase s = map upper_char s"

text \<open>
  The request object handed to \<^verbatim>\<open>$http\<close> carries the payload either as \<^verbatim>\<open>params\<close> or as
  \<^verbatim>\<open>data\<close>. The transport answers with a response, of which the service reads \<^verbatim>\<open>data\<close>, or
  rejects with an object carrying \<^verbatim>\<open>xhrStatus\<close>, \<^verbatim>\<open>status\<close> and \<^verbatim>\<open>statusText\<close>.
\<close>

datatype payload = Params json | Data json

record request =
  http_method :: string
  url :: string
  payload :: payload

record response =
  data :: json

record http_error =
  xhrStatus :: string
  status :: int
  statusText :: string

section \<open>The service and its environment\<close>

datatype HasticDatasourceAvailability = AVAILABLE | NOT_AVAILABLE

text \<open>The string value of each member of the enum.\<close>

fun availability_value :: "HasticDatasourceAvailability \<Rightarrow> string" where
  "availability_value AVAILABLE = ''success''"
| "availability_value NOT_AVAILABLE = ''error''"

record HasticDatasourceStatus =
  testing :: bool
  availability :: HasticDatasourceAvailability
  message :: string

text \<open>
  An instance: its public status, the private \<^verbatim>\<open>_isUp\<close>, \<^verbatim>\<open>_hasticDatasourceURL\<close> and
  \<^verbatim>\<open>$http\<close> (fields are written without the leading underscore and dollar sign). The URL is
  declared a string; at run time it may also be \<^verbatim>\<open>undefined\<close> or \<^verbatim>\<open>null\<close>, which the code
  tests for, so it is a \<^typ>\<open>json\<close> value. The transport is a function of the state of the
  remote side, which it may change.
\<close>

record 'srv AnalyticService =
  hasticDatasourceStatus :: HasticDatasourceStatus
  isUp :: bool
  hasticDatasourceURL :: json
  http :: "'srv \<Rightarrow> request \<Rightarrow> (http_error + response) \<times> 'srv"

text \<open>What \<^verbatim>\<open>appEvents.emit(name, payload)\<close> was called with.\<close>

datatype emitted = Lines "string list" | Endpoint json

type_synonym event = "string \<times> emitted"

text \<open>
  What all instances share: the property \<^verbatim>\<open>hasticDatasourcesAvailability\<close> of \<^verbatim>\<open>window\<close>
  (\<open>None\<close> while \<^verbatim>\<open>window\<close> has no such property; the keys of the registry are strings), the
  global \<^verbatim>\<open>status\<close> of \<^verbatim>\<open>window\<close>, the events emitted on \<^verbatim>\<open>appEvents\<close> so far, oldest
  first, what \<^verbatim>\<open>console.error\<close> was given, and the state of the remote side.
\<close>

record 'srv world =
  hasticDatasourcesAvailability :: "(string \<rightharpoonup> HasticDatasourceAvailability) option"
  window_status :: string
  appEvents :: "event list"
  console :: "error list"
  server :: 'srv

definition emit :: "string \<Rightarrow> emitted \<Rightarrow> 'srv world \<Rightarrow> 'srv world" where
  "emit name arg w = w\<lparr>appEvents := appEvents w @ [(name, arg)]\<rparr>"

subsection \<open>Construction\<close>

definition initial_status :: HasticDatasourceStatus where
  "initial_status = \<lparr>testing = False, availability = NOT_AVAILABLE, message = []\<rparr>"

definition AnalyticService_constructor ::
  "json \<Rightarrow> ('srv \<Rightarrow> request \<Rightarrow> (http_error + response) \<times> 'srv) \<Rightarrow> error + 'srv AnalyticService"
where
  "AnalyticService_constructor hasticDatasourceURL' http' =
     (if hasticDatasourceURL' = JUndefined then Inl (TypeError ''_hasticDatasourceURL is undefined'')
      else Inr \<lparr>hasticDatasourceStatus = initial_status, isUp = False,
                hasticDatasourceURL = hasticDatasourceURL', http = http'\<rparr>)"

subsection \<open>Connection alerts and the shared registry\<close>

text \<open>
  \<^verbatim>\<open>_updateHasticUrlStatus\<close>: creates the registry when \<^verbatim>\<open>window\<close> has none, records the
  status under the endpoint, and returns whether the entry is new or has changed.
\<close>

definition updateHasticUrlStatus ::
  "'srv AnalyticService \<Rightarrow> 'srv world \<Rightarrow> HasticDatasourceAvailability \<Rightarrow> bool \<times> 'srv world"
where
  "updateHasticUrlStatus this w st =
     (let registry = (case hasticDatasourcesAvailability w of None \<Rightarrow> Map.empty | Some r \<Rightarrow> r);
          key = toString (hasticDatasourceURL this)
      in case registry key of
           None \<Rightarrow> (True, w\<lparr>hasticDatasourcesAvailability := Some (registry(key \<mapsto> st))\<rparr>)
         | Some previous \<Rightarrow>
             if previous \<noteq> st then
               (True, (emit ''hastic-datasource-status-changed'' (Endpoint (hasticDatasourceURL this)) w)
                        \<lparr>hasticDatasourcesAvailability := Some (registry(key \<mapsto> st))\<rparr>)
             else (False, w\<lparr>hasticDatasourcesAvailability := Some registry\<rparr>))"

definition displayConnectionAlert ::
  "'srv AnalyticService \<Rightarrow> 'srv world \<Rightarrow> HasticDatasourceAvailability \<Rightarrow> string list
     \<Rightarrow> 'srv AnalyticService \<times> 'srv world"
where
  "displayConnectionAlert this w st msg =
     (let this' = this\<lparr>hasticDatasourceStatus :=
                        (hasticDatasourceStatus this)\<lparr>availability := st, message := join ''<br /> '' msg\<rparr>\<rparr>;
          (statusChanged, w') = updateHasticUrlStatus this' w st
      in if \<not> statusChanged then (this', w')
         else (this', emit (''alert-'' @ availability_value st) (Lines msg) w'))"

definition quoted_url :: "'srv AnalyticService \<Rightarrow> string" where
  "quoted_url this = [CHR 0x22] @ toString (hasticDatasourceURL this) @ [CHR 0x22]"

definition displayNoConnectionAlert ::
  "'srv AnalyticService \<Rightarrow> 'srv world \<Rightarrow> json \<Rightarrow> 'srv AnalyticService \<times> 'srv world"
where
  "displayNoConnectionAlert this w statusText' =
     displayConnectionAlert this w NOT_AVAILABLE
       [''No connection to Hastic Server. Status: '' @ toString statusText',
        ''Hastic Datasource URL: '' @ quoted_url this]"

definition displayConnectionTimeoutAlert ::
  "'srv AnalyticService \<Rightarrow> 'srv world \<Rightarrow> json \<Rightarrow> 'srv AnalyticService \<times> 'srv world"
where
  "displayConnectionTimeoutAlert this w statusText' =
     displayConnectionAlert this w NOT_AVAILABLE
       [''Timeout when connecting to Hastic Server. Status: '' @ toString statusText',
        ''Hastic Datasource URL: '' @ quoted_url this]"

definition displayWrongUrlAlert ::
  "'srv AnalyticService \<Rightarrow> 'srv world \<Rightarrow> 'srv AnalyticService \<times> 'srv world"
where
  "displayWrongUrlAlert this w =
     displayConnectionAlert this w NOT_AVAILABLE
       [''Please check Hastic Server URL'',
        ''Something is working at '' @ quoted_url this @ '' but it's not Hastic Server'']"

definition displayUnsupportedVersionAlert ::
  "string \<Rightarrow> 'srv AnalyticService \<Rightarrow> 'srv world \<Rightarrow> json \<Rightarrow> 'srv AnalyticService \<times> 'srv world"
where
  "displayUnsupportedVersionAlert SUPPORTED_SERVER_VERSION this w actual =
     displayConnectionAlert this w NOT_AVAILABLE
       [''Unsupported Hastic Server version'',
        ''Hastic Server at '' @ quoted_url this @ '' has unsupported version (got ''
          @ toString actual @ '', should be '' @ SUPPORTED_SERVER_VERSION @ '')'']"

subsection \<open>The request dispatcher\<close>

text \<open>
  The first lines of \<^verbatim>\<open>_analyticRequest\<close>: the verb in upper case, the path appended to the
  endpoint, the payload as query parameters for GET and DELETE and as body otherwise.
\<close>

definition requestObject :: "'srv AnalyticService \<Rightarrow> string \<Rightarrow> string \<Rightarrow> json \<Rightarrow> request" where
  "requestObject this method' url' data' =
     (let method'' = toUpperCase method';
          url'' = toString (hasticDatasourceURL this) @ url'
      in if method'' = ''GET'' \<or> method'' = ''DELETE''
         then \<lparr>http_method = method'', url = url'', payload = Params data'\<rparr>
         else \<lparr>http_method = method'', url = url'', payload = Data data'\<rparr>)"

text \<open>
  \<^verbatim>\<open>_analyticRequest\<close>. A call returns the outcome of its promise (\<open>Inl\<close> a rejection,
  \<open>Inr\<close> the value it resolves to), the instance and the environment. In the handler the
  local \<^verbatim>\<open>statusText\<close> is the numeric status; the statement \<^verbatim>\<open>status += ...\<close> appends to the
  global \<^verbatim>\<open>status\<close> of \<^verbatim>\<open>window\<close>, there being no local of that name. The branch without a
  \<^verbatim>\<open>throw\<close> falls off the end of the function, which resolves to \<^verbatim>\<open>undefined\<close>.
\<close>

definition analyticRequest ::
  "'srv AnalyticService \<Rightarrow> 'srv world \<Rightarrow> string \<Rightarrow> string \<Rightarrow> json
     \<Rightarrow> (error + json) \<times> 'srv AnalyticService \<times> 'srv world"
where
  "analyticRequest this w method' url' data' =
     (case http this (server w) (requestObject this method' url' data') of
        (Inr response, srv) \<Rightarrow> (Inr (data response), this\<lparr>isUp := True\<rparr>, w\<lparr>server := srv\<rparr>)
      | (Inl error, srv) \<Rightarrow>
          (let w1 = w\<lparr>server := srv\<rparr> in
           if xhrStatus error \<noteq> ''complete'' \<or> status error > 500 then
             (let statusText' = JNum (status error);
                  w2 = (if statusText error \<noteq> []
                        then w1\<lparr>window_status := window_status w1 @ '' ('' @ statusText error @ '')''\<rparr>
                        else w1);
                  (this', w3) = (if status error = 504 \<or> status error = - 1
                                 then displayConnectionTimeoutAlert this w2 statusText'
                                 else displayNoConnectionAlert this w2 statusText')
              in (Inl (Error (''Fetching error: '' @ toString statusText')), this'\<lparr>isUp := False\<rparr>, w3))
           else (Inr JUndefined, this\<lparr>isUp := True\<rparr>, w1)))"

definition get ::
  "'srv AnalyticService \<Rightarrow> 'srv world \<Rightarrow> string \<Rightarrow> json
     \<Rightarrow> (error + json) \<times> 'srv AnalyticService \<times> 'srv world"
where
  "get this w url' params = analyticRequest this w ''GET'' url' params"

definition post ::
  "'srv AnalyticService \<Rightarrow> 'srv world \<Rightarrow> string \<Rightarrow> json
     \<Rightarrow> (error + json) \<times> 'srv AnalyticService \<times> 'srv world"
where
  "post this w url' data' = analyticRequest this w ''POST'' url' data'"

definition patch ::
  "'srv AnalyticService \<Rightarrow> 'srv world \<Rightarrow> string \<Rightarrow> json
     \<Rightarrow> (error + json) \<times> 'srv AnalyticService \<times> 'srv world"
where
  "patch this w url' data' = analyticRequest this w ''PATCH'' url' data'"

definition delete ::
  "'srv AnalyticService \<Rightarrow> 'srv world \<Rightarrow> string \<Rightarrow> json
     \<Rightarrow> (error + json) \<times> 'srv AnalyticService \<times> 'srv world"
where
  "delete this w url' data' = analyticRequest this w ''DELETE'' url' data'"

subsection \<open>The availability check\<close>

text \<open>The two lines of the warning of \<^verbatim>\<open>_checkDatasourceConfig\<close>.\<close>

definition missing_datasource :: "string list" where
  "missing_datasource =
     [''Hastic Datasource is missing'',
      ''Please setup Hastic Datasource. More info: https://github.com/hastic/hastic-grafana-app/wiki/Getting-started'']"

definition checkDatasourceConfig :: "'srv AnalyticService \<Rightarrow> 'srv world \<Rightarrow> bool \<times> 'srv world" where
  "checkDatasourceConfig this w =
     (if hasticDatasourceURL this = JNull \<or> hasticDatasourceURL this = JUndefined
         \<or> hasticDatasourceURL this = JStr []
      then (False, emit ''alert-warning'' (Lines missing_datasource) w)
      else (True, w))"

text \<open>
  \<^verbatim>\<open>isHasticServerResponse\<close>, \<^verbatim>\<open>isSupportedServerVersion\<close> and \<^verbatim>\<open>SUPPORTED_SERVER_VERSION\<close>
  are imported from \<^verbatim>\<open>utils\<close>; the service takes them as given. A predicate may throw, which
  the availability check catches.
\<close>

record utils =
  isHasticServerResponse :: "json \<Rightarrow> error + bool"
  isSupportedServerVersion :: "json \<Rightarrow> error + bool"
  SUPPORTED_SERVER_VERSION :: string

text \<open>The \<^verbatim>\<open>catch\<close> clause of \<^verbatim>\<open>_isDatasourceAvailable\<close>.\<close>

definition caught ::
  "error \<Rightarrow> 'srv AnalyticService \<Rightarrow> 'srv world \<Rightarrow> bool \<times> 'srv AnalyticService \<times> 'srv world"
where
  "caught e this w = (False, this, w\<lparr>console := console w @ [e]\<rparr>)"

definition isDatasourceAvailable ::
  "utils \<Rightarrow> 'srv AnalyticService \<Rightarrow> 'srv world \<Rightarrow> bool \<times> 'srv AnalyticService \<times> 'srv world"
where
  "isDatasourceAvailable U this w =
     (case checkDatasourceConfig this w of
        (False, w0) \<Rightarrow> (False, this, w0)
      | (True, w0) \<Rightarrow>
          (case get this w0 ''/'' JUndefined of
             (Inl e, this1, w1) \<Rightarrow> caught e this1 w1
           | (Inr response, this1, w1) \<Rightarrow>
               (case isHasticServerResponse U response of
                  Inl e \<Rightarrow> caught e this1 w1
                | Inr False \<Rightarrow>
                    (let (this2, w2) = displayWrongUrlAlert this1 w1 in (False, this2, w2))
                | Inr True \<Rightarrow>
                    (case isSupportedServerVersion U response of
                       Inl e \<Rightarrow> caught e this1 w1
                     | Inr False \<Rightarrow>
                         (case member response ''packageVersion'' of
                            Inl e \<Rightarrow> caught e this1 w1
                          | Inr actual \<Rightarrow>
                              (let (this2, w2) =
                                     displayUnsupportedVersionAlert (SUPPORTED_SERVER_VERSION U) this1 w1 actual
                               in (False, this2, w2)))
                     | Inr True \<Rightarrow>
                         (let (this2, w2) =
                                displayConnectionAlert this1 w1 AVAILABLE
                                  [''Connected to Hastic Datasource'',
                                   ''Hastic datasource URL: '' @ quoted_url this1]
                          in (True, this2, w2))))))"

definition checkDatasourceAvailability ::
  "utils \<Rightarrow> 'srv AnalyticService \<Rightarrow> 'srv world \<Rightarrow> bool \<times> 'srv AnalyticService \<times> 'srv world"
where
  "checkDatasourceAvailability U this w =
     (let this1 = this\<lparr>hasticDatasourceStatus := (hasticDatasourceStatus this)\<lparr>testing := True\<rparr>\<rparr>;
          (up, this2, w2) = isDatasourceAvailable U this1 w;
          this3 = this2\<lparr>isUp := up\<rparr>;
          this4 = this3\<lparr>hasticDatasourceStatus := (hasticDatasourceStatus this3)\<lparr>testing := False\<rparr>\<rparr>
      in (isUp this4, this4, w2))"

subsection \<open>Segments and detection spans\<close>

text \<open>
  The segments of a \<^verbatim>\<open>SegmentsSet\<close>, as \<^verbatim>\<open>updateSegments\<close> reads them through
  \<^verbatim>\<open>getSegments()\<close>.
\<close>

record segment =
  segment_id :: json
  segment_from :: int
  segment_to :: int
  labeled :: bool
  deleted :: bool

definition getJSONs :: "segment list \<Rightarrow> json" where
  "getJSONs segs =
     JArr (map (\<lambda>segment. JObj [(''from'', JNum (segment_from segment)),
                                 (''to'', JNum (segment_to segment)),
                                 (''labeled'', JBool (labeled segment)),
                                 (''deleted'', JBool (deleted segment))]) segs)"

definition updateSegments_payload :: "json \<Rightarrow> segment list \<Rightarrow> segment list \<Rightarrow> json" where
  "updateSegments_payload id' addedSegments removedSegments =
     JObj [(''id'', id'),
           (''addedSegments'', getJSONs addedSegments),
           (''removedSegments'', JArr (map segment_id removedSegments))]"

definition updateSegments ::
  "'srv AnalyticService \<Rightarrow> 'srv world \<Rightarrow> json \<Rightarrow> segment list \<Rightarrow> segment list
     \<Rightarrow> (error + json) \<times> 'srv AnalyticService \<times> 'srv world"
where
  "updateSegments this w id' addedSegments removedSegments =
     (case patch this w ''/segments'' (updateSegments_payload id' addedSegments removedSegments) of
        (Inl e, this', w') \<Rightarrow> (Inl e, this', w')
      | (Inr data', this', w') \<Rightarrow>
          (case member data' ''addedIds'' of
             Inl e \<Rightarrow> (Inl e, this', w')
           | Inr addedIds \<Rightarrow>
               if addedIds = JUndefined then (Inl (Error ''Server didn`t send addedIds''), this', w')
               else (Inr addedIds, this', w')))"

definition getDetectionSpans ::
  "'srv AnalyticService \<Rightarrow> 'srv world \<Rightarrow> json \<Rightarrow> json \<Rightarrow> json
     \<Rightarrow> (error + json) \<times> 'srv AnalyticService \<times> 'srv world"
where
  "getDetectionSpans this w id' from' to' =
     (if id' = JUndefined then (Inl (Error ''id is undefined''), this, w)
      else
        case get this w ''/detections/spans'' (JObj [(''id'', id'), (''from'', from'), (''to'', to')]) of
          (Inl e, this', w') \<Rightarrow> (Inl e, this', w')
        | (Inr data', this', w') \<Rightarrow>
            if data' = JUndefined then (Inl (Error ''Server didn`t return spans array''), this', w')
            else
              (case member data' ''spans'' of
                 Inl e \<Rightarrow> (Inl e, this', w')
               | Inr spans \<Rightarrow>
                   if spans = JUndefined
                   then (Inl (Error ''Server didn`t return spans array''), this', w')
                   else (Inr spans, this', w')))"

definition getSegments_payload :: "json \<Rightarrow> json \<Rightarrow> json \<Rightarrow> json" where
  "getSegments_payload id' from' to' =
     JObj ([(''id'', id')]
           @ (if from' \<noteq> JUndefined then [(''from'', from')] else [])
           @ (if to' \<noteq> JUndefined then [(''to'', to')] else []))"

text \<open>
  The callback of \<^verbatim>\<open>segments.map\<close>: five property reads, then the constructor of
  \<^verbatim>\<open>AnalyticSegment\<close>, a class of \<^verbatim>\<open>models\<close> that the service takes as given.
\<close>

definition new_segment ::
  "(json \<Rightarrow> json \<Rightarrow> json \<Rightarrow> json \<Rightarrow> json \<Rightarrow> error + 'seg) \<Rightarrow> json \<Rightarrow> error + 'seg"
where
  "new_segment AnalyticSegment s =
     (case member s ''labeled'' of Inl e \<Rightarrow> Inl e | Inr l \<Rightarrow>
       (case member s ''id'' of Inl e \<Rightarrow> Inl e | Inr i \<Rightarrow>
         (case member s ''from'' of Inl e \<Rightarrow> Inl e | Inr f \<Rightarrow>
           (case member s ''to'' of Inl e \<Rightarrow> Inl e | Inr t \<Rightarrow>
             (case member s ''deleted'' of Inl e \<Rightarrow> Inl e | Inr d \<Rightarrow> AnalyticSegment l i f t d)))))"

text \<open>Mapping a callback that may throw: the first throw ends the loop.\<close>

fun map_throwing :: "('a \<Rightarrow> error + 'b) \<Rightarrow> 'a list \<Rightarrow> error + 'b list" where
  "map_throwing f [] = Inr []"
| "map_throwing f (x # xs) =
     (case f x of
        Inl e \<Rightarrow> Inl e
      | Inr y \<Rightarrow> (case map_throwing f xs of Inl e \<Rightarrow> Inl e | Inr ys \<Rightarrow> Inr (y # ys)))"

text \<open>\<^verbatim>\<open>segments.map(...)\<close>: only an array has a \<^verbatim>\<open>map\<close> to call.\<close>

fun segments_map ::
  "(json \<Rightarrow> json \<Rightarrow> json \<Rightarrow> json \<Rightarrow> json \<Rightarrow> error + 'seg) \<Rightarrow> json \<Rightarrow> error + 'seg list"
where
  "segments_map AnalyticSegment (JArr xs) = map_throwing (new_segment AnalyticSegment) xs"
| "segments_map AnalyticSegment v = Inl (TypeError ''segments.map is not a function'')"

definition getSegments ::
  "(json \<Rightarrow> json \<Rightarrow> json \<Rightarrow> json \<Rightarrow> json \<Rightarrow> error + 'seg)
     \<Rightarrow> 'srv AnalyticService \<Rightarrow> 'srv world \<Rightarrow> json \<Rightarrow> json \<Rightarrow> json
     \<Rightarrow> (error + 'seg list) \<times> 'srv AnalyticService \<times> 'srv world"
where
  "getSegments AnalyticSegment this w id' from' to' =
     (if id' = JUndefined then (Inl (Error ''id is undefined''), this, w)
      else
        case get this w ''/segments'' (getSegments_payload id' from' to') of
          (Inl e, this', w') \<Rightarrow> (Inl e, this', w')
        | (Inr data', this', w') \<Rightarrow>
            (case member data' ''segments'' of
               Inl e \<Rightarrow> (Inl e, this', w')
             | Inr segments \<Rightarrow>
                 if segments = JUndefined
                 then (Inl (Error ''Server didn`t return segments array''), this', w')
                 else (segments_map AnalyticSegment segments, this', w')))"

subsection \<open>Polling sequences\<close>

text \<open>
  \<^verbatim>\<open>getGenerator\<close> is an async generator function: calling it runs none of its body and
  returns an iterator, which is at the start of the body, suspended at the \<^verbatim>\<open>yield\<close>, or
  completed. The fetch function works on a state of its own (for the service: the instance
  and the environment).
\<close>

datatype position = AtStart | AtYield | Completed

record ('st, 'a) generator =
  position :: position
  gen_id :: json
  duration :: int
  func :: "json \<Rightarrow> json list \<Rightarrow> 'st \<Rightarrow> (error + 'a) \<times> 'st"
  args :: "json list"

definition getGenerator ::
  "json \<Rightarrow> int \<Rightarrow> (json \<Rightarrow> json list \<Rightarrow> 'st \<Rightarrow> (error + 'a) \<times> 'st) \<Rightarrow> json list
     \<Rightarrow> ('st, 'a) generator"
where
  "getGenerator id' duration' func' args' =
     \<lparr>position = AtStart, gen_id = id', duration = duration', func = func', args = args'\<rparr>"

text \<open>
  What one call of \<^verbatim>\<open>next()\<close> settles to: an element, a rejection, or \<^verbatim>\<open>done\<close>; and what
  the body did on the way: calls of the fetch function and waits of \<^verbatim>\<open>duration\<close>.
\<close>

datatype 'a iteration = Yielded 'a | Raised error | Done

datatype action = Invoked json "json list" | Waited int

text \<open>The loop body up to the \<^verbatim>\<open>yield\<close>: \<^verbatim>\<open>yield await func(id, ...args)\<close>.\<close>

definition fetch_and_yield ::
  "('st, 'a) generator \<Rightarrow> 'st \<Rightarrow> action list
     \<Rightarrow> 'a iteration \<times> ('st, 'a) generator \<times> 'st \<times> action list"
where
  "fetch_and_yield g st done =
     (case func g (gen_id g) (args g) st of
        (Inl e, st') \<Rightarrow>
          (Raised e, g\<lparr>position := Completed\<rparr>, st', done @ [Invoked (gen_id g) (args g)])
      | (Inr v, st') \<Rightarrow>
          (Yielded v, g\<lparr>position := AtYield\<rparr>, st', done @ [Invoked (gen_id g) (args g)]))"

definition next_element ::
  "('st, 'a) generator \<Rightarrow> 'st \<Rightarrow> 'a iteration \<times> ('st, 'a) generator \<times> 'st \<times> action list"
where
  "next_element g st =
     (case position g of
        AtStart \<Rightarrow>
          if gen_id g = JUndefined
          then (Raised (Error ''id is undefined''), g\<lparr>position := Completed\<rparr>, st, [])
          else fetch_and_yield g st []
      | AtYield \<Rightarrow> fetch_and_yield g st [Waited (duration g)]
      | Completed \<Rightarrow> (Done, g, st, []))"

text \<open>The first \<open>n\<close> calls of \<^verbatim>\<open>next()\<close>, each awaited before the following one.\<close>

fun consume ::
  "nat \<Rightarrow> ('st, 'a) generator \<Rightarrow> 'st \<Rightarrow> 'a iteration list \<times> ('st, 'a) generator \<times> 'st \<times> action list"
where
  "consume 0 g st = ([], g, st, [])"
| "consume (Suc n) g st =
     (case next_element g st of
        (r, g', st', done) \<Rightarrow>
          (case consume n g' st' of
             (rs, g'', st'', done') \<Rightarrow> (r # rs, g'', st'', done @ done')))"

text \<open>
  The fetch function of the status poll. The \<^verbatim>\<open>try\<close> block returns the promise of
  \<^verbatim>\<open>this.get\<close> without awaiting it: the call expression of an async function completes
  normally with a promise (\<open>Inr\<close>), the \<^verbatim>\<open>catch\<close> clause is for a throw of that expression
  (\<open>Inl\<close>), and the returned promise settles the result.
\<close>

definition error_status :: "error \<Rightarrow> json" where
  "error_status e = JUndefined"

definition status_fetch ::
  "'srv AnalyticService \<Rightarrow> 'srv world \<Rightarrow> json
     \<Rightarrow> (error + json) \<times> 'srv AnalyticService \<times> 'srv world"
where
  "status_fetch this w id' =
     (case (Inr (get this w ''/analyticUnits/status'' (JObj [(''id'', id')]))
              :: error + ((error + json) \<times> 'srv AnalyticService \<times> 'srv world)) of
        Inr promise \<Rightarrow> promise
      | Inl error \<Rightarrow>
          if error_status error = JNum 404 then (Inr (JObj [(''status'', JStr ''404'')]), this, w)
          else (Inl error, this, w))"

definition getStatusGenerator ::
  "json \<Rightarrow> int \<Rightarrow> ('srv AnalyticService \<times> 'srv world, json) generator"
where
  "getStatusGenerator id' duration' =
     getGenerator id' duration'
       (\<lambda>i rest (this, w). case status_fetch this w i of (r, this', w') \<Rightarrow> (r, (this', w')))
       []"

text \<open>\<^verbatim>\<open>getDetectionSpans.bind(this)\<close> applied to \<^verbatim>\<open>(id, from, to)\<close>.\<close>

definition getDetectionsGenerator ::
  "json \<Rightarrow> json \<Rightarrow> json \<Rightarrow> int \<Rightarrow> ('srv AnalyticService \<times> 'srv world, json) generator"
where
  "getDetectionsGenerator id' from' to' duration' =
     getGenerator id' duration'
       (\<lambda>i rest (this, w).
          case getDetectionSpans this w i
                 (case rest of [] \<Rightarrow> JUndefined | f # _ \<Rightarrow> f)
                 (case rest of f # t # _ \<Rightarrow> t | _ \<Rightarrow> JUndefined) of
            (r, this', w') \<Rightarrow> (r, (this', w')))
       [from', to']"

section \<open>Observations\<close>

text \<open>
  What the registry holds for the endpoint of an instance, the user-visible notifications
  among the emitted events (the \<^verbatim>\<open>alert-...\<close> events), and the event that a connection alert
  of a given status and message emits when it is not suppressed.
\<close>

definition registry_entry ::
  "'srv world \<Rightarrow> 'srv AnalyticService \<Rightarrow> HasticDatasourceAvailability option"
where
  "registry_entry w this =
     (case hasticDatasourcesAvailability w of
        None \<Rightarrow> None
      | Some registry \<Rightarrow> registry (toString (hasticDatasourceURL this)))"

definition notifications :: "'srv world \<Rightarrow> event list" where
  "notifications w = filter (\<lambda>ev. take 6 (fst ev) = ''alert-'') (appEvents w)"

definition notification :: "HasticDatasourceAvailability \<Rightarrow> string list \<Rightarrow> event" where
  "notification st msg = (''alert-'' @ availability_value st, Lines msg)"

text \<open>
  The two lines of a connectivity alert for a rejection: the timeout wording for the
  statuses 504 and -1, the no-connection wording otherwise.
\<close>

definition connectivity_lines :: "'srv AnalyticService \<Rightarrow> http_error \<Rightarrow> string list" where
  "connectivity_lines this e =
     [(if status e = 504 \<or> status e = - 1
       then ''Timeout when connecting to Hastic Server. Status: ''
       else ''No connection to Hastic Server. Status: '') @ number_toString (status e),
      ''Hastic Datasource URL: '' @ quoted_url this]"

text \<open>The value of a property that is absent or cannot be read counts as missing.\<close>

definition lacks :: "json \<Rightarrow> string \<Rightarrow> bool" where
  "lacks v name = (case member v name of Inl e \<Rightarrow> True | Inr x \<Rightarrow> x = JUndefined)"

text \<open>
  The environment in which the handler of a connectivity failure issues its alert: the
  remote side has moved on and the global \<^verbatim>\<open>status\<close> has grown by the status text.
\<close>

definition after_rejection :: "'srv world \<Rightarrow> http_error \<Rightarrow> 'srv \<Rightarrow> 'srv world" where
  "after_rejection w e srv =
     (if statusText e \<noteq> []
      then w\<lparr>server := srv, window_status := window_status w @ '' ('' @ statusText e @ '')''\<rparr>
      else w\<lparr>server := srv\<rparr>)"

subsection \<open>Concrete scenarios\<close>

text \<open>
  A transport that rejects every request with one error, one that answers every request
  with one body, a window in which nothing has happened yet, and the instance the
  constructor returns for an endpoint.
\<close>

definition rejecting :: "http_error \<Rightarrow> unit \<Rightarrow> request \<Rightarrow> (http_error + response) \<times> unit" where
  "rejecting e srv req = (Inl e, srv)"

definition answering :: "json \<Rightarrow> unit \<Rightarrow> request \<Rightarrow> (http_error + response) \<times> unit" where
  "answering d srv req = (Inr \<lparr>data = d\<rparr>, srv)"

definition new_window :: "unit world" where
  "new_window = \<lparr>hasticDatasourcesAvailability = None, window_status = [], appEvents = [],
                  console = [], server = ()\<rparr>"

definition new_service ::
  "json \<Rightarrow> (unit \<Rightarrow> request \<Rightarrow> (http_error + response) \<times> unit) \<Rightarrow> unit AnalyticService"
where
  "new_service u h = \<lparr>hasticDatasourceStatus = initial_status, isUp = False,
                        hasticDatasourceURL = u, http = h\<rparr>"

definition not_found :: http_error where
  "not_found = \<lparr>xhrStatus = ''complete'', status = 404, statusText = ''Not Found''\<rparr>"

definition internal_error :: http_error where
  "internal_error = \<lparr>xhrStatus = ''complete'', status = 500, statusText = ''Internal Server Error''\<rparr>"

definition bad_gateway :: http_error where
  "bad_gateway = \<lparr>xhrStatus = ''complete'', status = 502, statusText = ''Bad Gateway''\<rparr>"

definition gateway_timeout :: http_error where
  "gateway_timeout = \<lparr>xhrStatus = ''complete'', status = 504, statusText = ''Gateway Timeout''\<rparr>"

definition aborted :: http_error where
  "aborted = \<lparr>xhrStatus = ''abort'', status = - 1, statusText = []\<rparr>"

text \<open>Utilities that accept exactly the objects with a \<^verbatim>\<open>packageVersion\<close> of 0.3.6.\<close>

definition test_utils :: utils where
  "test_utils =
     \<lparr>isHasticServerResponse = (\<lambda>r. Inr (\<not> lacks r ''packageVersion'')),
      isSupportedServerVersion = (\<lambda>r. Inr (member r ''packageVersion'' = Inr (JStr ''0.3.6''))),
      SUPPORTED_SERVER_VERSION = ''0.3.6''\<rparr>"

text \<open>A window whose registry holds a status for \<^verbatim>\<open>http://hastic\<close>, and a root response.\<close>

definition recorded_window :: "HasticDatasourceAvailability \<Rightarrow> unit world" where
  "recorded_window st = new_window\<lparr>hasticDatasourcesAvailability := Some [''http://hastic'' \<mapsto> st]\<rparr>"

definition hastic_info :: json where
  "hastic_info = JObj [(''packageVersion'', JStr ''0.3.6'')]"

text \<open>A constructor of \<^verbatim>\<open>AnalyticSegment\<close> that keeps its five arguments.\<close>

definition plain_segment :: "json \<Rightarrow> json \<Rightarrow> json \<Rightarrow> json \<Rightarrow> json \<Rightarrow> error + json" where
  "plain_segment l i f t d =
     Inr (JObj [(''labeled'', l), (''id'', i), (''from'', f), (''to'', t), (''deleted'', d)])"

section \<open>Auxiliary facts\<close>

lemma number_toString_examples:
  "number_toString 404 = ''404''" "number_toString 500 = ''500''"
  "number_toString 502 = ''502''" "number_toString 504 = ''504''"
  "number_toString (- 1) = ''-1''"
  by code_simp+

lemma toUpperCase_examples:
  "toUpperCase ''get'' = ''GET''" "toUpperCase ''GET'' = ''GET''"
  "toUpperCase ''PATCH'' = ''PATCH''" "toUpperCase ''POST'' = ''POST''"
  "toUpperCase ''DELETE'' = ''DELETE''"
  by code_simp+

subsection \<open>Connection alerts\<close>

lemma updateHasticUrlStatus_changed:
  "fst (updateHasticUrlStatus this w st) = (registry_entry w this \<noteq> Some st)"
  by (auto simp add: updateHasticUrlStatus_def registry_entry_def Let_def split: option.splits)

lemma updateHasticUrlStatus_entry:
  "registry_entry (snd (updateHasticUrlStatus this w st)) this = Some st"
  by (auto simp add: updateHasticUrlStatus_def registry_entry_def emit_def Let_def
        split: option.splits)

lemma updateHasticUrlStatus_events:
  "appEvents (snd (updateHasticUrlStatus this w st)) =
     appEvents w @
       (case registry_entry w this of
          None \<Rightarrow> []
        | Some previous \<Rightarrow>
            if previous = st then []
            else [(''hastic-datasource-status-changed'', Endpoint (hasticDatasourceURL this))])"
  by (auto simp add: updateHasticUrlStatus_def registry_entry_def emit_def Let_def
        split: option.splits)

lemma updateHasticUrlStatus_rest:
  "window_status (snd (updateHasticUrlStatus this w st)) = window_status w"
  "console (snd (updateHasticUrlStatus this w st)) = console w"
  "server (snd (updateHasticUrlStatus this w st)) = server w"
  by (auto simp add: updateHasticUrlStatus_def emit_def Let_def split: option.splits)

lemma updateHasticUrlStatus_url:
  "hasticDatasourceURL this' = hasticDatasourceURL this \<Longrightarrow>
   updateHasticUrlStatus this' w st = updateHasticUrlStatus this w st"
  unfolding updateHasticUrlStatus_def by (simp only:)

lemma displayConnectionAlert_this:
  "fst (displayConnectionAlert this w st msg) =
     this\<lparr>hasticDatasourceStatus :=
            (hasticDatasourceStatus this)\<lparr>availability := st, message := join ''<br /> '' msg\<rparr>\<rparr>"
  by (simp add: displayConnectionAlert_def Let_def split: prod.splits)

lemma displayConnectionAlert_world:
  "snd (displayConnectionAlert this w st msg) =
     (if registry_entry w this = Some st then snd (updateHasticUrlStatus this w st)
      else emit (''alert-'' @ availability_value st) (Lines msg)
             (snd (updateHasticUrlStatus this w st)))"
proof -
  let ?s' = "this\<lparr>hasticDatasourceStatus :=
            (hasticDatasourceStatus this)\<lparr>availability := st, message := join ''<br /> '' msg\<rparr>\<rparr>"
  have u: "updateHasticUrlStatus ?s' w st = updateHasticUrlStatus this w st"
    by (rule updateHasticUrlStatus_url) simp
  obtain c w' where cw: "updateHasticUrlStatus this w st = (c, w')"
    by (cases "updateHasticUrlStatus this w st")
  have c: "c = (registry_entry w this \<noteq> Some st)"
    using updateHasticUrlStatus_changed [of this w st] cw by simp
  show ?thesis
    by (simp add: displayConnectionAlert_def Let_def u cw c)
qed

lemma displayConnectionAlert_entry:
  "registry_entry (snd (displayConnectionAlert this w st msg)) this = Some st"
  using updateHasticUrlStatus_entry [of this w st]
  by (simp add: displayConnectionAlert_world emit_def registry_entry_def)

lemma displayConnectionAlert_events:
  "appEvents (snd (displayConnectionAlert this w st msg)) =
     appEvents w @
       (case registry_entry w this of
          None \<Rightarrow> [notification st msg]
        | Some previous \<Rightarrow>
            if previous = st then []
            else [(''hastic-datasource-status-changed'', Endpoint (hasticDatasourceURL this)),
                  notification st msg])"
  by (simp add: displayConnectionAlert_world updateHasticUrlStatus_events emit_def notification_def
        split: option.splits)

lemma displayConnectionAlert_rest:
  "window_status (snd (displayConnectionAlert this w st msg)) = window_status w"
  "console (snd (displayConnectionAlert this w st msg)) = console w"
  "server (snd (displayConnectionAlert this w st msg)) = server w"
  by (simp_all add: displayConnectionAlert_world updateHasticUrlStatus_rest emit_def)

lemma notification_is_alert: "take 6 (fst (notification st msg)) = ''alert-''"
  by (simp add: notification_def)

lemma displayConnectionAlert_notifications:
  "notifications (snd (displayConnectionAlert this w st msg)) =
     notifications w @ (if registry_entry w this = Some st then [] else [notification st msg])"
  by (simp add: notifications_def displayConnectionAlert_events notification_is_alert
        split: option.splits)

subsection \<open>The dispatcher, case by case\<close>

lemma after_rejection_simps:
  "registry_entry (after_rejection w e srv) this = registry_entry w this"
  "appEvents (after_rejection w e srv) = appEvents w"
  "notifications (after_rejection w e srv) = notifications w"
  "console (after_rejection w e srv) = console w"
  "server (after_rejection w e srv) = srv"
  by (simp_all add: after_rejection_def registry_entry_def notifications_def)

lemma analyticRequest_resolved:
  assumes "http this (server w) (requestObject this m u d) = (Inr r, srv)"
  shows "analyticRequest this w m u d = (Inr (data r), this\<lparr>isUp := True\<rparr>, w\<lparr>server := srv\<rparr>)"
  using assms by (simp add: analyticRequest_def)

lemma analyticRequest_suppressed:
  assumes "http this (server w) (requestObject this m u d) = (Inl e, srv)"
    and "xhrStatus e = ''complete''" and "status e \<le> 500"
  shows "analyticRequest this w m u d = (Inr JUndefined, this\<lparr>isUp := True\<rparr>, w\<lparr>server := srv\<rparr>)"
  using assms by (simp add: analyticRequest_def)

lemma analyticRequest_failure:
  assumes "http this (server w) (requestObject this m u d) = (Inl e, srv)"
    and "xhrStatus e \<noteq> ''complete'' \<or> 500 < status e"
  shows "analyticRequest this w m u d =
           (Inl (Error (''Fetching error: '' @ number_toString (status e))),
            (fst (displayConnectionAlert this (after_rejection w e srv) NOT_AVAILABLE
                    (connectivity_lines this e)))\<lparr>isUp := False\<rparr>,
            snd (displayConnectionAlert this (after_rejection w e srv) NOT_AVAILABLE
                    (connectivity_lines this e)))"
  using assms
  by (auto simp add: analyticRequest_def after_rejection_def connectivity_lines_def
        displayConnectionTimeoutAlert_def displayNoConnectionAlert_def Let_def
        split: prod.splits)

lemma registry_entry_url:
  "hasticDatasourceURL a = hasticDatasourceURL b \<Longrightarrow> registry_entry w a = registry_entry w b"
  by (simp add: registry_entry_def split: option.splits)

lemma displayConnectionAlert_same_url:
  "hasticDatasourceURL (fst (displayConnectionAlert this w st msg)) = hasticDatasourceURL this"
  by (simp add: displayConnectionAlert_this)

lemma second_alert_suppressed:
  assumes xy: "hasticDatasourceURL x = hasticDatasourceURL y"
  shows "notifications (snd (displayConnectionAlert y (snd (displayConnectionAlert x v st mx)) st my))
        = notifications v @ (if registry_entry v x = Some st then [] else [notification st mx])"
proof -
  have "registry_entry (snd (displayConnectionAlert x v st mx)) y
          = registry_entry (snd (displayConnectionAlert x v st mx)) x"
    using xy [symmetric] by (rule registry_entry_url)
  then have "registry_entry (snd (displayConnectionAlert x v st mx)) y = Some st"
    by (simp add: displayConnectionAlert_entry)
  then show ?thesis
    by (simp add: displayConnectionAlert_notifications)
qed

subsection \<open>The availability check, case by case\<close>

lemma member_throws:
  "member v name = Inl e \<Longrightarrow> v = JUndefined \<or> v = JNull"
  by (cases v) (simp_all split: option.splits)

lemma checkDatasourceAvailability_testing:
  "testing (hasticDatasourceStatus (fst (snd (checkDatasourceAvailability U this w)))) = False"
  by (simp add: checkDatasourceAvailability_def Let_def split: prod.splits)

lemma checkDatasourceAvailability_isUp:
  "isUp (fst (snd (checkDatasourceAvailability U this w))) = fst (checkDatasourceAvailability U this w)"
  by (simp add: checkDatasourceAvailability_def Let_def split: prod.splits)

lemma checkDatasourceAvailability_availability:
  "availability (hasticDatasourceStatus (fst (snd (checkDatasourceAvailability U this w)))) =
   availability (hasticDatasourceStatus (fst (snd (isDatasourceAvailable U
      (this\<lparr>hasticDatasourceStatus := (hasticDatasourceStatus this)\<lparr>testing := True\<rparr>\<rparr>) w))))"
  "fst (checkDatasourceAvailability U this w) =
   fst (isDatasourceAvailable U
      (this\<lparr>hasticDatasourceStatus := (hasticDatasourceStatus this)\<lparr>testing := True\<rparr>\<rparr>) w)"
  "snd (snd (checkDatasourceAvailability U this w)) =
   snd (snd (isDatasourceAvailable U
      (this\<lparr>hasticDatasourceStatus := (hasticDatasourceStatus this)\<lparr>testing := True\<rparr>\<rparr>) w))"
  by (simp_all add: checkDatasourceAvailability_def Let_def split: prod.splits)

lemma isDatasourceAvailable_unconfigured:
  assumes "hasticDatasourceURL this = JNull \<or> hasticDatasourceURL this = JUndefined
         \<or> hasticDatasourceURL this = JStr []"
  shows "isDatasourceAvailable U this w = (False, this, emit ''alert-warning'' (Lines missing_datasource) w)"
  using assms by (auto simp add: isDatasourceAvailable_def checkDatasourceConfig_def)

lemma isDatasourceAvailable_unreachable:
  assumes "fst (checkDatasourceConfig this w)"
    and "http this (server w) (requestObject this ''GET'' ''/'' JUndefined) = (Inl e, srv)"
    and "xhrStatus e \<noteq> ''complete'' \<or> 500 < status e"
  shows "isDatasourceAvailable U this w =
           caught (Error (''Fetching error: '' @ number_toString (status e)))
            ((fst (displayConnectionAlert this (after_rejection w e srv) NOT_AVAILABLE
                    (connectivity_lines this e)))\<lparr>isUp := False\<rparr>)
            (snd (displayConnectionAlert this (after_rejection w e srv) NOT_AVAILABLE
                    (connectivity_lines this e)))"
proof -
  from assms(1) have config: "checkDatasourceConfig this w = (True, w)"
    by (simp add: checkDatasourceConfig_def split: if_splits)
  show ?thesis
    by (simp add: isDatasourceAvailable_def config get_def analyticRequest_failure [OF assms(2,3)])
qed

lemma isDatasourceAvailable_responded:
  assumes config: "fst (checkDatasourceConfig this w)"
    and got: "get this w ''/'' JUndefined = (Inr d, this1, w1)"
    and total: "\<And>r. \<exists>b. isHasticServerResponse U r = Inr b"
               "\<And>r. \<exists>b. isSupportedServerVersion U r = Inr b"
    and rejects: "isHasticServerResponse U JUndefined = Inr False"
                 "isHasticServerResponse U JNull = Inr False"
  shows "availability (hasticDatasourceStatus (fst (snd (isDatasourceAvailable U this w))))
           = (if fst (isDatasourceAvailable U this w) then AVAILABLE else NOT_AVAILABLE)"
proof -
  from config have config': "checkDatasourceConfig this w = (True, w)"
    by (simp add: checkDatasourceConfig_def split: if_splits)
  obtain h where h: "isHasticServerResponse U d = Inr h" using total(1) by blast
  obtain s where s: "isSupportedServerVersion U d = Inr s" using total(2) by blast
  show ?thesis
  proof (cases h)
    case False
    with h show ?thesis
      by (simp add: isDatasourceAvailable_def config' got displayWrongUrlAlert_def
            displayConnectionAlert_this split: prod.splits)
  next
    case True
    with h rejects have "d \<noteq> JUndefined" "d \<noteq> JNull" by auto
    then obtain v where v: "member d ''packageVersion'' = Inr v"
      using member_throws [of d "''packageVersion''"] by (cases "member d ''packageVersion''") auto
    from True h s v show ?thesis
      by (cases s)
         (simp_all add: isDatasourceAvailable_def config' got displayUnsupportedVersionAlert_def
            displayConnectionAlert_this split: prod.splits)
  qed
qed


lemma isDatasourceAvailable_reflects:
  assumes config: "fst (checkDatasourceConfig this w)"
    and total: "\<And>r. \<exists>b. isHasticServerResponse U r = Inr b"
               "\<And>r. \<exists>b. isSupportedServerVersion U r = Inr b"
    and rejects: "isHasticServerResponse U JUndefined = Inr False"
                 "isHasticServerResponse U JNull = Inr False"
  shows "availability (hasticDatasourceStatus (fst (snd (isDatasourceAvailable U this w))))
           = (if fst (isDatasourceAvailable U this w) then AVAILABLE else NOT_AVAILABLE)"
proof -
  obtain res srv where res: "http this (server w) (requestObject this ''GET'' ''/'' JUndefined) = (res, srv)"
    by (cases "http this (server w) (requestObject this ''GET'' ''/'' JUndefined)")
  show ?thesis
  proof (cases res)
    case (Inr r)
    with res have "get this w ''/'' JUndefined = (Inr (data r), this\<lparr>isUp := True\<rparr>, w\<lparr>server := srv\<rparr>)"
      by (simp add: get_def analyticRequest_resolved)
    then show ?thesis
      by (rule isDatasourceAvailable_responded [OF config _ total rejects])
  next
    case (Inl e)
    show ?thesis
    proof (cases "xhrStatus e \<noteq> ''complete'' \<or> 500 < status e")
      case True
      from res Inl have "http this (server w) (requestObject this ''GET'' ''/'' JUndefined) = (Inl e, srv)"
        by simp
      from isDatasourceAvailable_unreachable [OF config this True, of U]
      show ?thesis by (simp add: caught_def displayConnectionAlert_this)
    next
      case False
      with res Inl
      have "get this w ''/'' JUndefined = (Inr JUndefined, this\<lparr>isUp := True\<rparr>, w\<lparr>server := srv\<rparr>)"
        by (simp add: get_def analyticRequest_suppressed)
      then show ?thesis
        by (rule isDatasourceAvailable_responded [OF config _ total rejects])
    qed
  qed
qed

lemma test_utils_total:
  "\<forall>r. \<exists>b. isHasticServerResponse test_utils r = Inr b"
  "\<forall>r. \<exists>b. isSupportedServerVersion test_utils r = Inr b"
  "isHasticServerResponse test_utils JUndefined = Inr False"
  "isHasticServerResponse test_utils JNull = Inr False"
  by (simp_all add: test_utils_def lacks_def)

subsection \<open>Data contracts\<close>

lemma getSegments_lacking:
  assumes "get this w ''/segments'' (getSegments_payload i f t) = (Inr d, this', w')"
    and "lacks d ''segments''"
  shows "isl (fst (getSegments A this w i f t))"
    and "i \<noteq> JUndefined \<Longrightarrow> d \<noteq> JUndefined \<Longrightarrow> d \<noteq> JNull \<Longrightarrow>
         getSegments A this w i f t = (Inl (Error ''Server didn`t return segments array''), this', w')"
  using assms member_throws [of d "''segments''"]
  by (cases "member d ''segments''"; auto simp add: getSegments_def lacks_def)+

lemma getDetectionSpans_lacking:
  assumes "get this w ''/detections/spans'' (JObj [(''id'', i), (''from'', f), (''to'', t)])
             = (Inr d, this', w')"
    and "d = JUndefined \<or> lacks d ''spans''"
  shows "isl (fst (getDetectionSpans this w i f t))"
    and "i \<noteq> JUndefined \<Longrightarrow> d \<noteq> JNull \<Longrightarrow>
         getDetectionSpans this w i f t = (Inl (Error ''Server didn`t return spans array''), this', w')"
  using assms member_throws [of d "''spans''"]
  by (cases "member d ''spans''"; auto simp add: getDetectionSpans_def lacks_def)+

lemma updateSegments_lacking:
  assumes "patch this w ''/segments'' (updateSegments_payload i added removed) = (Inr d, this', w')"
    and "lacks d ''addedIds''"
  shows "isl (fst (updateSegments this w i added removed))"
    and "d \<noteq> JUndefined \<Longrightarrow> d \<noteq> JNull \<Longrightarrow>
         updateSegments this w i added removed = (Inl (Error ''Server didn`t send addedIds''), this', w')"
  using assms member_throws [of d "''addedIds''"]
  by (cases "member d ''addedIds''"; auto simp add: updateSegments_def lacks_def)+

subsection \<open>Polling sequences\<close>

lemma consume_completed:
  "position g = Completed \<Longrightarrow> consume n g st = (replicate n Done, g, st, [])"
  by (induction n) (simp_all add: next_element_def)

lemma consume_undefined_id:
  assumes "position g = AtStart" and "gen_id g = JUndefined"
  shows "consume (Suc n) g st =
           (Raised (Error ''id is undefined'') # replicate n Done,
            g\<lparr>position := Completed\<rparr>, st, [])"
proof -
  from assms have first: "next_element g st =
      (Raised (Error ''id is undefined''), g\<lparr>position := Completed\<rparr>, st, [])"
    by (simp add: next_element_def)
  have "position (g\<lparr>position := Completed\<rparr>) = Completed" by simp
  from consume_completed [OF this, of n st] first show ?thesis by simp
qed

lemma status_fetch_get:
  "status_fetch this w i = get this w ''/analyticUnits/status'' (JObj [(''id'', i)])"
  by (simp add: status_fetch_def)

section \<open>Classification of transport failures\<close>

text \<open>
  C1, as the claim has it, fails where it says that every such failure emits an alert:
  the alert of the dispatcher goes through the de-duplication of the connection alerts.
  Below, the registry already holds NotAvailable for the endpoint when a request times
  out (status 504): the call is rejected and \<^verbatim>\<open>isUp\<close> is false, but no event at all has been
  emitted.
\<close>

theorem repeated_failure_emits_nothing:
  "case analyticRequest (new_service (JStr ''http://hastic'') (rejecting gateway_timeout))
          (recorded_window NOT_AVAILABLE) ''GET'' ''/segments'' JUndefined of
     (r, this', w') \<Rightarrow>
       r = Inl (Error ''Fetching error: 504'') \<and> isUp this' = False \<and> appEvents w' = []"
  by code_simp

text \<open>
  C1, amended. Whenever the transport rejects a request and either did not complete
  (\<^verbatim>\<open>xhrStatus\<close> is not \<^verbatim>\<open>'complete'\<close>) or reports a status above 500, the dispatcher, for
  any verb, path and payload, rejects with an error, leaves \<^verbatim>\<open>isUp\<close> false, and issues a
  connectivity alert: the status of the instance becomes NotAvailable with the message of
  the timeout wording for the statuses 504 and -1 and of the no-connection wording
  otherwise, the registry records NotAvailable for the endpoint, and the user-visible
  notification of that alert is emitted unless the registry already recorded NotAvailable
  for the endpoint.
\<close>

theorem connectivity_failure_alerts_and_raises:
  assumes "http this (server w) (requestObject this m u d) = (Inl e, srv)"
    and "xhrStatus e \<noteq> ''complete'' \<or> 500 < status e"
  shows "case analyticRequest this w m u d of
           (r, this', w') \<Rightarrow>
             r = Inl (Error (''Fetching error: '' @ number_toString (status e)))
             \<and> isUp this' = False
             \<and> hasticDatasourceStatus this' =
                 (hasticDatasourceStatus this)
                   \<lparr>availability := NOT_AVAILABLE,
                    message := join ''<br /> '' (connectivity_lines this e)\<rparr>
             \<and> registry_entry w' this = Some NOT_AVAILABLE
             \<and> notifications w' =
                 notifications w @
                   (if registry_entry w this = Some NOT_AVAILABLE then []
                    else [notification NOT_AVAILABLE (connectivity_lines this e)])"
  by (simp add: analyticRequest_failure [OF assms] displayConnectionAlert_this
        displayConnectionAlert_entry displayConnectionAlert_notifications after_rejection_simps)

theorem connectivity_failure_alerts_and_raises_witness:
  "case analyticRequest (new_service (JStr ''http://hastic'') (rejecting gateway_timeout))
          new_window ''get'' ''/segments'' JUndefined of
     (r, this', w') \<Rightarrow>
       r = Inl (Error ''Fetching error: 504'')
       \<and> isUp this' = False
       \<and> availability (hasticDatasourceStatus this') = NOT_AVAILABLE
       \<and> notifications w' =
           [(''alert-error'',
             Lines [''Timeout when connecting to Hastic Server. Status: 504'',
                    ''Hastic Datasource URL: '' @ [CHR 0x22] @ ''http://hastic'' @ [CHR 0x22]])]"
proof -
  let ?s = "new_service (JStr ''http://hastic'') (rejecting gateway_timeout)"
  have rejected: "http ?s (server new_window)
                    (requestObject ?s ''get'' ''/segments'' JUndefined) = (Inl gateway_timeout, ())"
    by (simp add: new_service_def rejecting_def)
  have failure: "xhrStatus gateway_timeout \<noteq> ''complete'' \<or> 500 < status gateway_timeout"
    by (simp add: gateway_timeout_def)
  show ?thesis
    using connectivity_failure_alerts_and_raises [OF rejected failure]
    by (simp add: connectivity_lines_def gateway_timeout_def number_toString_examples
          quoted_url_def new_service_def registry_entry_def new_window_def notifications_def
          notification_def split: prod.splits)
qed

text \<open>
  C2. Whenever the transport rejects a request after completing (\<^verbatim>\<open>xhrStatus\<close> is
  \<^verbatim>\<open>'complete'\<close>) with a status of at most 500, the dispatcher resolves to \<^verbatim>\<open>undefined\<close>
  and sets \<^verbatim>\<open>isUp\<close>; nothing else of the instance or the environment changes but the
  state of the remote side.
\<close>

theorem completed_error_resolves_undefined:
  assumes "http this (server w) (requestObject this m u d) = (Inl e, srv)"
    and "xhrStatus e = ''complete''" and "status e \<le> 500"
  shows "analyticRequest this w m u d = (Inr JUndefined, this\<lparr>isUp := True\<rparr>, w\<lparr>server := srv\<rparr>)"
  using assms by (rule analyticRequest_suppressed)

theorem completed_error_resolves_undefined_witness:
  "analyticRequest (new_service (JStr ''http://hastic'') (rejecting not_found))
      new_window ''get'' ''/segments'' JUndefined
   = (Inr JUndefined, (new_service (JStr ''http://hastic'') (rejecting not_found))\<lparr>isUp := True\<rparr>,
      new_window)"
proof -
  let ?s = "new_service (JStr ''http://hastic'') (rejecting not_found)"
  have rejected: "http ?s (server new_window)
                    (requestObject ?s ''get'' ''/segments'' JUndefined) = (Inl not_found, ())"
    by (simp add: new_service_def rejecting_def)
  have "xhrStatus not_found = ''complete''" and "status not_found \<le> 500"
    by (simp_all add: not_found_def)
  from completed_error_resolves_undefined [OF rejected this]
  show ?thesis by (simp add: new_window_def)
qed

text \<open>
  C3, as the claim has it, fails: a rejection with status 500 after a completed transport
  raises no alert and is not propagated. The instance below starts in a window without
  registry and events; after the call nothing has been emitted or recorded, \<^verbatim>\<open>isUp\<close> is
  set and the call has resolved to \<^verbatim>\<open>undefined\<close>.
\<close>

theorem status_500_is_not_a_connectivity_failure:
  "analyticRequest (new_service (JStr ''http://hastic'') (rejecting internal_error))
      new_window ''GET'' ''/segments'' JUndefined
   = (Inr JUndefined,
      (new_service (JStr ''http://hastic'') (rejecting internal_error))\<lparr>isUp := True\<rparr>,
      new_window)"
proof -
  let ?s = "new_service (JStr ''http://hastic'') (rejecting internal_error)"
  have rejected: "http ?s (server new_window)
                    (requestObject ?s ''GET'' ''/segments'' JUndefined) = (Inl internal_error, ())"
    by (simp add: new_service_def rejecting_def)
  have "xhrStatus internal_error = ''complete''" and "status internal_error \<le> 500"
    by (simp_all add: internal_error_def)
  from analyticRequest_suppressed [OF rejected this]
  show ?thesis by (simp add: new_window_def)
qed

text \<open>
  C3, amended. After a completed transport, a rejection with status 500 resolves the call
  to \<^verbatim>\<open>undefined\<close> with \<^verbatim>\<open>isUp\<close> set and without any alert. A rejection with a status above
  500 other than 504 propagates the error, leaves \<^verbatim>\<open>isUp\<close> false and issues the alert of the
  no-connection wording: the status of the instance becomes NotAvailable with that message,
  and the user-visible notification of that wording is emitted unless the registry already
  recorded NotAvailable for the endpoint, in which case no notification is emitted.
\<close>

theorem completed_500_suppressed_above_500_no_connection:
  assumes "http this (server w) (requestObject this m u d) = (Inl e, srv)"
    and "xhrStatus e = ''complete''"
  shows "(status e = 500 \<longrightarrow>
            analyticRequest this w m u d
              = (Inr JUndefined, this\<lparr>isUp := True\<rparr>, w\<lparr>server := srv\<rparr>))
       \<and> (500 < status e \<and> status e \<noteq> 504 \<longrightarrow>
            (case analyticRequest this w m u d of
               (r, this', w') \<Rightarrow>
                 r = Inl (Error (''Fetching error: '' @ number_toString (status e)))
                 \<and> isUp this' = False
                 \<and> availability (hasticDatasourceStatus this') = NOT_AVAILABLE
                 \<and> message (hasticDatasourceStatus this') =
                     ''No connection to Hastic Server. Status: '' @ number_toString (status e)
                       @ ''<br /> '' @ ''Hastic Datasource URL: '' @ quoted_url this
                 \<and> notifications w' =
                     notifications w @
                       (if registry_entry w this = Some NOT_AVAILABLE then []
                        else [(''alert-error'',
                               Lines [''No connection to Hastic Server. Status: ''
                                        @ number_toString (status e),
                                      ''Hastic Datasource URL: '' @ quoted_url this])])))"
proof (intro conjI impI)
  assume "status e = 500"
  then have "status e \<le> 500" by simp
  from analyticRequest_suppressed [OF assms this]
  show "analyticRequest this w m u d
          = (Inr JUndefined, this\<lparr>isUp := True\<rparr>, w\<lparr>server := srv\<rparr>)" .
next
  assume above: "500 < status e \<and> status e \<noteq> 504"
  then have failure: "xhrStatus e \<noteq> ''complete'' \<or> 500 < status e" by simp
  from above have lines:
    "connectivity_lines this e =
       [''No connection to Hastic Server. Status: '' @ number_toString (status e),
        ''Hastic Datasource URL: '' @ quoted_url this]"
    by (simp add: connectivity_lines_def)
  show "case analyticRequest this w m u d of
          (r, this', w') \<Rightarrow>
            r = Inl (Error (''Fetching error: '' @ number_toString (status e)))
            \<and> isUp this' = False
            \<and> availability (hasticDatasourceStatus this') = NOT_AVAILABLE
            \<and> message (hasticDatasourceStatus this') =
                ''No connection to Hastic Server. Status: '' @ number_toString (status e)
                  @ ''<br /> '' @ ''Hastic Datasource URL: '' @ quoted_url this
            \<and> notifications w' =
                notifications w @
                  (if registry_entry w this = Some NOT_AVAILABLE then []
                   else [(''alert-error'',
                          Lines [''No connection to Hastic Server. Status: ''
                                   @ number_toString (status e),
                                 ''Hastic Datasource URL: '' @ quoted_url this])])"
    by (simp add: analyticRequest_failure [OF assms(1) failure] displayConnectionAlert_this
          displayConnectionAlert_notifications after_rejection_simps lines notification_def)
qed

theorem completed_500_suppressed_above_500_no_connection_witness:
  "analyticRequest (new_service (JStr ''http://hastic'') (rejecting internal_error))
      new_window ''PATCH'' ''/segments'' JNull
     = (Inr JUndefined,
        (new_service (JStr ''http://hastic'') (rejecting internal_error))\<lparr>isUp := True\<rparr>,
        new_window)
   \<and> (case analyticRequest (new_service (JStr ''http://hastic'') (rejecting bad_gateway))
             new_window ''PATCH'' ''/segments'' JNull of
        (r, this', w') \<Rightarrow>
          r = Inl (Error ''Fetching error: 502'')
          \<and> isUp this' = False
          \<and> notifications w' =
              [(''alert-error'',
                Lines [''No connection to Hastic Server. Status: 502'',
                       ''Hastic Datasource URL: '' @ [CHR 0x22] @ ''http://hastic'' @ [CHR 0x22]])])
   \<and> (case analyticRequest (new_service (JStr ''http://hastic'') (rejecting bad_gateway))
             (recorded_window NOT_AVAILABLE) ''PATCH'' ''/segments'' JNull of
        (r, this', w') \<Rightarrow>
          r = Inl (Error ''Fetching error: 502'')
          \<and> isUp this' = False
          \<and> notifications w' = [])"
proof -
  let ?a = "new_service (JStr ''http://hastic'') (rejecting internal_error)"
  let ?w = "recorded_window NOT_AVAILABLE"
  let ?b = "new_service (JStr ''http://hastic'') (rejecting bad_gateway)"
  have a: "http ?a (server new_window) (requestObject ?a ''PATCH'' ''/segments'' JNull)
             = (Inl internal_error, ())"
    by (simp add: new_service_def rejecting_def)
  have b: "http ?b (server new_window) (requestObject ?b ''PATCH'' ''/segments'' JNull)
             = (Inl bad_gateway, ())"
    by (simp add: new_service_def rejecting_def)
  have ca: "xhrStatus internal_error = ''complete''" by (simp add: internal_error_def)
  have cb: "xhrStatus bad_gateway = ''complete''" by (simp add: bad_gateway_def)
  have first: "analyticRequest ?a new_window ''PATCH'' ''/segments'' JNull
                 = (Inr JUndefined, ?a\<lparr>isUp := True\<rparr>, new_window)"
    using completed_500_suppressed_above_500_no_connection [OF a ca]
    by (simp add: internal_error_def new_window_def)
  have second: "case analyticRequest ?b new_window ''PATCH'' ''/segments'' JNull of
        (r, this', w') \<Rightarrow>
          r = Inl (Error ''Fetching error: 502'')
          \<and> isUp this' = False
          \<and> notifications w' =
              [(''alert-error'',
                Lines [''No connection to Hastic Server. Status: 502'',
                       ''Hastic Datasource URL: '' @ [CHR 0x22] @ ''http://hastic'' @ [CHR 0x22]])]"
    using completed_500_suppressed_above_500_no_connection [OF b cb]
    by (simp add: bad_gateway_def number_toString_examples quoted_url_def new_service_def
          registry_entry_def new_window_def notifications_def split: prod.splits)
  have c: "http ?b (server ?w) (requestObject ?b ''PATCH'' ''/segments'' JNull)
             = (Inl bad_gateway, ())"
    by (simp add: new_service_def rejecting_def)
  have third: "case analyticRequest ?b ?w ''PATCH'' ''/segments'' JNull of
        (r, this', w') \<Rightarrow>
          r = Inl (Error ''Fetching error: 502'')
          \<and> isUp this' = False
          \<and> notifications w' = []"
    using completed_500_suppressed_above_500_no_connection [OF c cb]
    by (simp add: bad_gateway_def number_toString_examples new_service_def
          registry_entry_def recorded_window_def new_window_def notifications_def
          split: prod.splits)
  from first second third show ?thesis by (intro conjI)
qed

section \<open>De-duplication of connection alerts\<close>

text \<open>
  C6. A connection alert emits its user-visible notification exactly when the status it
  records differs from what the registry held for the endpoint of the instance, a missing
  entry counting as a difference. Hence when two instances of one endpoint record the same
  status one after the other, the second emits nothing: together they emit at most one
  notification, that of the first, and none when the registry held the status already;
  the number emitted is the same whichever instance goes first.
\<close>

theorem notification_iff_registry_changes:
  "notifications (snd (displayConnectionAlert this w st msg)) =
     notifications w @ (if registry_entry w this = Some st then [] else [notification st msg])
   \<and> (hasticDatasourceURL a = hasticDatasourceURL b \<longrightarrow>
        notifications (snd (displayConnectionAlert b (snd (displayConnectionAlert a w st ma)) st mb))
          = notifications w @ (if registry_entry w a = Some st then [] else [notification st ma])
        \<and> length (notifications (snd (displayConnectionAlert b (snd (displayConnectionAlert a w st ma)) st mb)))
          = length (notifications (snd (displayConnectionAlert a (snd (displayConnectionAlert b w st mb)) st ma)))
        \<and> length (notifications (snd (displayConnectionAlert b (snd (displayConnectionAlert a w st ma)) st mb)))
          \<le> length (notifications w) + 1)"
proof (intro conjI impI)
  show "notifications (snd (displayConnectionAlert this w st msg)) =
     notifications w @ (if registry_entry w this = Some st then [] else [notification st msg])"
    by (rule displayConnectionAlert_notifications)
next
  assume shared: "hasticDatasourceURL a = hasticDatasourceURL b"
  show ab: "notifications (snd (displayConnectionAlert b (snd (displayConnectionAlert a w st ma)) st mb))
          = notifications w @ (if registry_entry w a = Some st then [] else [notification st ma])"
    using shared by (rule second_alert_suppressed)
  have ba: "notifications (snd (displayConnectionAlert a (snd (displayConnectionAlert b w st mb)) st ma))
          = notifications w @ (if registry_entry w b = Some st then [] else [notification st mb])"
    using shared [symmetric] by (rule second_alert_suppressed)
  show "length (notifications (snd (displayConnectionAlert b (snd (displayConnectionAlert a w st ma)) st mb)))
          = length (notifications (snd (displayConnectionAlert a (snd (displayConnectionAlert b w st mb)) st ma)))"
    using registry_entry_url [OF shared, of w] by (simp add: ab ba)
  show "length (notifications (snd (displayConnectionAlert b (snd (displayConnectionAlert a w st ma)) st mb)))
          \<le> length (notifications w) + 1"
    by (simp add: ab)
qed

theorem notification_iff_registry_changes_witness:
  "notifications
     (snd (displayConnectionAlert (new_service (JStr ''http://hastic'') (rejecting aborted))
        (snd (displayConnectionAlert (new_service (JStr ''http://hastic'') (answering JNull))
                new_window NOT_AVAILABLE [''first'']))
        NOT_AVAILABLE [''second'']))
   = [(''alert-error'', Lines [''first''])]"
proof -
  let ?a = "new_service (JStr ''http://hastic'') (answering JNull)"
  let ?b = "new_service (JStr ''http://hastic'') (rejecting aborted)"
  have shared: "hasticDatasourceURL ?a = hasticDatasourceURL ?b"
    by (simp add: new_service_def)
  from notification_iff_registry_changes [of ?a new_window NOT_AVAILABLE "[]" ?a ?b "[''first'']" "[''second'']"] shared
  show ?thesis
    by (simp add: registry_entry_def new_window_def notifications_def notification_def)
qed

text \<open>
  C10. Every connection alert writes its status and the joined message into the status of
  the instance, whatever the registry holds, and so also when the registry holds the
  status already and the notification is withheld. Hence after an availability check of a
  configured endpoint, validated by predicates that return on every response and reject
  \<^verbatim>\<open>undefined\<close> and \<^verbatim>\<open>null\<close>, the recorded availability is Available exactly when the
  check returned true, whether or not a notification was shown.
\<close>

theorem alert_always_updates_status:
  "hasticDatasourceStatus (fst (displayConnectionAlert this w st msg)) =
     (hasticDatasourceStatus this)\<lparr>availability := st, message := join ''<br /> '' msg\<rparr>
   \<and> (registry_entry w this = Some st \<longrightarrow>
        notifications (snd (displayConnectionAlert this w st msg)) = notifications w)
   \<and> (fst (checkDatasourceConfig this w)
        \<and> (\<forall>r. \<exists>b. isHasticServerResponse U r = Inr b)
        \<and> (\<forall>r. \<exists>b. isSupportedServerVersion U r = Inr b)
        \<and> isHasticServerResponse U JUndefined = Inr False
        \<and> isHasticServerResponse U JNull = Inr False \<longrightarrow>
        (case checkDatasourceAvailability U this w of
           (up, this', w') \<Rightarrow>
             availability (hasticDatasourceStatus this') = (if up then AVAILABLE else NOT_AVAILABLE)))"
proof (intro conjI impI)
  show "hasticDatasourceStatus (fst (displayConnectionAlert this w st msg)) =
     (hasticDatasourceStatus this)\<lparr>availability := st, message := join ''<br /> '' msg\<rparr>"
    by (simp add: displayConnectionAlert_this)
next
  assume "registry_entry w this = Some st"
  then show "notifications (snd (displayConnectionAlert this w st msg)) = notifications w"
    by (simp add: displayConnectionAlert_notifications)
next
  let ?s = "this\<lparr>hasticDatasourceStatus := (hasticDatasourceStatus this)\<lparr>testing := True\<rparr>\<rparr>"
  assume h: "fst (checkDatasourceConfig this w)
        \<and> (\<forall>r. \<exists>b. isHasticServerResponse U r = Inr b)
        \<and> (\<forall>r. \<exists>b. isSupportedServerVersion U r = Inr b)
        \<and> isHasticServerResponse U JUndefined = Inr False
        \<and> isHasticServerResponse U JNull = Inr False"
  then have config: "fst (checkDatasourceConfig ?s w)"
    by (simp add: checkDatasourceConfig_def)
  from h have total: "\<And>r. \<exists>b. isHasticServerResponse U r = Inr b"
      "\<And>r. \<exists>b. isSupportedServerVersion U r = Inr b" by simp_all
  from h have rejects: "isHasticServerResponse U JUndefined = Inr False"
      "isHasticServerResponse U JNull = Inr False" by simp_all
  have "availability (hasticDatasourceStatus (fst (snd (checkDatasourceAvailability U this w))))
          = (if fst (checkDatasourceAvailability U this w) then AVAILABLE else NOT_AVAILABLE)"
    using isDatasourceAvailable_reflects [OF config total rejects]
    by (simp add: checkDatasourceAvailability_availability)
  then show "case checkDatasourceAvailability U this w of
           (up, this', w') \<Rightarrow>
             availability (hasticDatasourceStatus this') = (if up then AVAILABLE else NOT_AVAILABLE)"
    by (simp add: case_prod_beta)
qed

theorem alert_always_updates_status_witness:
  "(case checkDatasourceAvailability test_utils
           (new_service (JStr ''http://hastic'') (answering hastic_info))
           (recorded_window AVAILABLE) of
      (up, this', w') \<Rightarrow>
        up \<and> availability (hasticDatasourceStatus this') = AVAILABLE \<and> notifications w' = [])"
proof -
  let ?s = "new_service (JStr ''http://hastic'') (answering hastic_info)"
  let ?w = "recorded_window AVAILABLE"
  have config: "fst (checkDatasourceConfig ?s ?w)"
    by (simp add: checkDatasourceConfig_def new_service_def)
  have up: "fst (checkDatasourceAvailability test_utils ?s ?w)"
    by code_simp
  have quiet: "notifications (snd (snd (checkDatasourceAvailability test_utils ?s ?w))) = []"
    by code_simp
  from alert_always_updates_status [of ?s ?w AVAILABLE "[]" test_utils] config test_utils_total up quiet
  show ?thesis
    by (simp add: case_prod_beta)
qed


section \<open>The availability check\<close>

text \<open>
  C7. On every path \<^verbatim>\<open>checkDatasourceAvailability\<close> returns with \<^verbatim>\<open>testing\<close> false. Against
  an unreachable endpoint (the endpoint is configured and the transport rejects the root
  request without completing or with a status above 500) it returns false, with \<^verbatim>\<open>isUp\<close>
  false and the recorded availability NotAvailable.
\<close>

theorem unreachable_probe_returns_false:
  "testing (hasticDatasourceStatus (fst (snd (checkDatasourceAvailability U this w)))) = False
   \<and> (fst (checkDatasourceConfig this w)
        \<and> http this (server w) (requestObject this ''GET'' ''/'' JUndefined) = (Inl e, srv)
        \<and> (xhrStatus e \<noteq> ''complete'' \<or> 500 < status e) \<longrightarrow>
        (case checkDatasourceAvailability U this w of
           (up, this', w') \<Rightarrow>
             up = False \<and> isUp this' = False
             \<and> testing (hasticDatasourceStatus this') = False
             \<and> availability (hasticDatasourceStatus this') = NOT_AVAILABLE))"
proof (intro conjI impI)
  show "testing (hasticDatasourceStatus (fst (snd (checkDatasourceAvailability U this w)))) = False"
    by (rule checkDatasourceAvailability_testing)
next
  let ?s = "this\<lparr>hasticDatasourceStatus := (hasticDatasourceStatus this)\<lparr>testing := True\<rparr>\<rparr>"
  assume h: "fst (checkDatasourceConfig this w)
        \<and> http this (server w) (requestObject this ''GET'' ''/'' JUndefined) = (Inl e, srv)
        \<and> (xhrStatus e \<noteq> ''complete'' \<or> 500 < status e)"
  then have config: "fst (checkDatasourceConfig ?s w)"
    by (simp add: checkDatasourceConfig_def)
  from h have rejected: "http ?s (server w) (requestObject ?s ''GET'' ''/'' JUndefined) = (Inl e, srv)"
    by (simp add: requestObject_def)
  from h have failure: "xhrStatus e \<noteq> ''complete'' \<or> 500 < status e" by simp
  note probe = isDatasourceAvailable_unreachable [OF config rejected failure, of U]
  have up: "fst (checkDatasourceAvailability U this w) = False"
    by (simp add: checkDatasourceAvailability_availability probe caught_def)
  have av: "availability (hasticDatasourceStatus (fst (snd (checkDatasourceAvailability U this w))))
              = NOT_AVAILABLE"
    by (simp add: checkDatasourceAvailability_availability probe caught_def
          displayConnectionAlert_this)
  from up av show "case checkDatasourceAvailability U this w of
           (up, this', w') \<Rightarrow>
             up = False \<and> isUp this' = False
             \<and> testing (hasticDatasourceStatus this') = False
             \<and> availability (hasticDatasourceStatus this') = NOT_AVAILABLE"
    using checkDatasourceAvailability_testing [of U this w]
      checkDatasourceAvailability_isUp [of U this w]
    by (simp add: case_prod_beta)
qed

theorem unreachable_probe_returns_false_witness:
  "case checkDatasourceAvailability test_utils
          (new_service (JStr ''http://hastic'') (rejecting aborted)) new_window of
     (up, this', w') \<Rightarrow>
       up = False \<and> isUp this' = False
       \<and> testing (hasticDatasourceStatus this') = False
       \<and> availability (hasticDatasourceStatus this') = NOT_AVAILABLE"
proof -
  let ?s = "new_service (JStr ''http://hastic'') (rejecting aborted)"
  have config: "fst (checkDatasourceConfig ?s new_window)"
    by (simp add: checkDatasourceConfig_def new_service_def)
  have rejected: "http ?s (server new_window) (requestObject ?s ''GET'' ''/'' JUndefined)
                    = (Inl aborted, ())"
    by (simp add: new_service_def rejecting_def)
  have failure: "xhrStatus aborted \<noteq> ''complete'' \<or> 500 < status aborted"
    by (simp add: aborted_def)
  from unreachable_probe_returns_false [of test_utils ?s new_window aborted "()"] config rejected failure
  show ?thesis by simp
qed

section \<open>Construction\<close>

text \<open>
  C5, as the claim has it, fails: the constructor tests for \<^verbatim>\<open>undefined\<close> only, so it
  returns an instance for the empty string and for \<^verbatim>\<open>null\<close>.
\<close>

theorem construction_accepts_empty_and_null:
  "AnalyticService_constructor (JStr []) (answering JNull) = Inr (new_service (JStr []) (answering JNull))
   \<and> AnalyticService_constructor JNull (answering JNull) = Inr (new_service JNull (answering JNull))"
  by (simp add: AnalyticService_constructor_def new_service_def)

text \<open>
  C5, amended. Construction with an undefined endpoint fails with a TypeError; the
  constructor has no access to the transport, so no request is attempted. With \<^verbatim>\<open>null\<close> or
  the empty string construction succeeds, and the availability check of that instance
  emits the warning of the missing datasource and returns false, leaving the instance and
  the remote side as they were: no request is attempted.
\<close>

theorem construction_fails_when_undefined:
  "AnalyticService_constructor JUndefined h = Inl (TypeError ''_hasticDatasourceURL is undefined'')
   \<and> (u = JNull \<or> u = JStr [] \<longrightarrow>
        (\<exists>this. AnalyticService_constructor u h = Inr this
           \<and> checkDatasourceAvailability U this w
               = (False, this, emit ''alert-warning'' (Lines missing_datasource) w)))"
proof (intro conjI impI)
  show "AnalyticService_constructor JUndefined h = Inl (TypeError ''_hasticDatasourceURL is undefined'')"
    by (simp add: AnalyticService_constructor_def)
next
  let ?s = "\<lparr>hasticDatasourceStatus = initial_status, isUp = False,
                hasticDatasourceURL = u, http = h\<rparr>"
  assume u: "u = JNull \<or> u = JStr []"
  then have made: "AnalyticService_constructor u h = Inr ?s"
    by (auto simp add: AnalyticService_constructor_def)
  from u have "checkDatasourceAvailability U ?s w
          = (False, ?s, emit ''alert-warning'' (Lines missing_datasource) w)"
    by (auto simp add: checkDatasourceAvailability_def isDatasourceAvailable_unconfigured
          initial_status_def)
  with made show "\<exists>this. AnalyticService_constructor u h = Inr this
           \<and> checkDatasourceAvailability U this w
               = (False, this, emit ''alert-warning'' (Lines missing_datasource) w)"
    by blast
qed

theorem construction_fails_when_undefined_witness:
  "AnalyticService_constructor JUndefined (answering JNull)
     = Inl (TypeError ''_hasticDatasourceURL is undefined'')
   \<and> checkDatasourceAvailability test_utils (new_service (JStr []) (answering JNull)) new_window
     = (False, new_service (JStr []) (answering JNull),
        emit ''alert-warning'' (Lines missing_datasource) new_window)"
  using construction_fails_when_undefined [of "answering JNull" "JStr []" test_utils new_window]
  by (simp add: AnalyticService_constructor_def new_service_def)


section \<open>Data contracts of the responses\<close>

text \<open>
  C8. When the dispatcher delivers a response body that lacks the required field, the
  operation raises instead of returning: \<^verbatim>\<open>getSegments\<close> for \<^verbatim>\<open>segments\<close>,
  \<^verbatim>\<open>getDetectionSpans\<close> for an undefined body or \<^verbatim>\<open>spans\<close>, \<^verbatim>\<open>updateSegments\<close> for
  \<^verbatim>\<open>addedIds\<close>. With a defined id and a body on which the property can be read, what is
  raised is the error of the operation (\<^verbatim>\<open>Server didn`t return segments array\<close>,
  \<^verbatim>\<open>Server didn`t return spans array\<close>, \<^verbatim>\<open>Server didn`t send addedIds\<close>).
\<close>

theorem missing_field_raises:
  "(get this w ''/segments'' (getSegments_payload i f t) = (Inr d, this', w')
      \<and> lacks d ''segments'' \<longrightarrow>
      isl (fst (getSegments A this w i f t))
      \<and> (i \<noteq> JUndefined \<and> d \<noteq> JUndefined \<and> d \<noteq> JNull \<longrightarrow>
           getSegments A this w i f t
             = (Inl (Error ''Server didn`t return segments array''), this', w')))
   \<and> (get this w ''/detections/spans'' (JObj [(''id'', i), (''from'', f), (''to'', t)])
          = (Inr d, this', w')
      \<and> (d = JUndefined \<or> lacks d ''spans'') \<longrightarrow>
      isl (fst (getDetectionSpans this w i f t))
      \<and> (i \<noteq> JUndefined \<and> d \<noteq> JNull \<longrightarrow>
           getDetectionSpans this w i f t
             = (Inl (Error ''Server didn`t return spans array''), this', w')))
   \<and> (patch this w ''/segments'' (updateSegments_payload i added removed) = (Inr d, this', w')
      \<and> lacks d ''addedIds'' \<longrightarrow>
      isl (fst (updateSegments this w i added removed))
      \<and> (d \<noteq> JUndefined \<and> d \<noteq> JNull \<longrightarrow>
           updateSegments this w i added removed
             = (Inl (Error ''Server didn`t send addedIds''), this', w')))"
  using getSegments_lacking [of this w i f t d this' w' A]
    getDetectionSpans_lacking [of this w i f t d this' w']
    updateSegments_lacking [of this w i added removed d this' w']
  by blast

theorem missing_field_raises_witness:
  "fst (getSegments plain_segment (new_service (JStr ''http://hastic'') (answering (JObj [])))
          new_window (JStr ''u1'') JUndefined JUndefined)
     = Inl (Error ''Server didn`t return segments array'')
   \<and> fst (getDetectionSpans (new_service (JStr ''http://hastic'') (answering (JObj [])))
          new_window (JStr ''u1'') (JNum 1) (JNum 2))
     = Inl (Error ''Server didn`t return spans array'')
   \<and> fst (updateSegments (new_service (JStr ''http://hastic'') (answering (JObj [])))
          new_window (JStr ''u1'') [] [])
     = Inl (Error ''Server didn`t send addedIds'')"
proof -
  let ?s = "new_service (JStr ''http://hastic'') (answering (JObj []))"
  let ?s' = "?s\<lparr>isUp := True\<rparr>"
  have g1: "get ?s new_window ''/segments'' (getSegments_payload (JStr ''u1'') JUndefined JUndefined)
              = (Inr (JObj []), ?s', new_window)"
    by (simp add: get_def analyticRequest_def new_service_def answering_def new_window_def)
  have g2: "get ?s new_window ''/detections/spans''
              (JObj [(''id'', JStr ''u1''), (''from'', JNum 1), (''to'', JNum 2)])
              = (Inr (JObj []), ?s', new_window)"
    by (simp add: get_def analyticRequest_def new_service_def answering_def new_window_def)
  have g3: "patch ?s new_window ''/segments'' (updateSegments_payload (JStr ''u1'') [] [])
              = (Inr (JObj []), ?s', new_window)"
    by (simp add: patch_def analyticRequest_def new_service_def answering_def new_window_def)
  have l: "lacks (JObj []) ''segments''" "lacks (JObj []) ''spans''" "lacks (JObj []) ''addedIds''"
    by (simp_all add: lacks_def)
  from missing_field_raises [of ?s new_window "JStr ''u1''" JUndefined JUndefined "JObj []" ?s' new_window
                  plain_segment "[]" "[]"]
    g1 l
  have a: "fst (getSegments plain_segment ?s new_window (JStr ''u1'') JUndefined JUndefined)
             = Inl (Error ''Server didn`t return segments array'')"
    by simp
  from missing_field_raises [of ?s new_window "JStr ''u1''" "JNum 1" "JNum 2" "JObj []" ?s' new_window
                  plain_segment "[]" "[]"]
    g2 l
  have b: "fst (getDetectionSpans ?s new_window (JStr ''u1'') (JNum 1) (JNum 2))
             = Inl (Error ''Server didn`t return spans array'')"
    by simp
  from missing_field_raises [of ?s new_window "JStr ''u1''" JUndefined JUndefined "JObj []" ?s' new_window
                  plain_segment "[]" "[]"]
    g3 l
  have c: "fst (updateSegments ?s new_window (JStr ''u1'') [] [])
             = Inl (Error ''Server didn`t send addedIds'')"
    by simp
  from a b c show ?thesis by simp
qed


section \<open>Polling sequences\<close>

text \<open>
  C9. A polling sequence created with an undefined id, by \<^verbatim>\<open>getGenerator\<close> and so by
  \<^verbatim>\<open>getStatusGenerator\<close> and \<^verbatim>\<open>getDetectionsGenerator\<close>, rejects its first \<^verbatim>\<open>next()\<close> with
  the error \<^verbatim>\<open>id is undefined\<close> and is done from then on: however many elements are asked
  for, none is produced, the fetch function is never invoked (no action is recorded) and
  the state it works on is untouched.
\<close>

theorem undefined_id_fails_before_fetch:
  "consume (Suc n) (getGenerator JUndefined dur f as) st =
     (Raised (Error ''id is undefined'') # replicate n Done,
      (getGenerator JUndefined dur f as)\<lparr>position := Completed\<rparr>, st, [])
   \<and> consume (Suc n) (getStatusGenerator JUndefined dur) (this, w) =
     (Raised (Error ''id is undefined'') # replicate n Done,
      (getStatusGenerator JUndefined dur)\<lparr>position := Completed\<rparr>, (this, w), [])
   \<and> consume (Suc n) (getDetectionsGenerator JUndefined from' to' dur) (this, w) =
     (Raised (Error ''id is undefined'') # replicate n Done,
      (getDetectionsGenerator JUndefined from' to' dur)\<lparr>position := Completed\<rparr>, (this, w), [])"
proof -
  have start: "position (getGenerator JUndefined d g xs) = AtStart"
      "gen_id (getGenerator JUndefined d g xs) = JUndefined" for d g xs
    by (simp_all add: getGenerator_def)
  show ?thesis
    unfolding getStatusGenerator_def getDetectionsGenerator_def
    by (intro conjI consume_undefined_id start)
qed

theorem undefined_id_fails_before_fetch_witness:
  "(case consume (Suc 2) (getStatusGenerator JUndefined 1000)
           (new_service (JStr ''http://hastic'') (answering hastic_info), new_window) of
      (elements, g, st, done) \<Rightarrow>
        elements = [Raised (Error ''id is undefined''), Done, Done]
        \<and> st = (new_service (JStr ''http://hastic'') (answering hastic_info), new_window)
        \<and> done = [])"
  using undefined_id_fails_before_fetch [of 2 1000 "\<lambda>i rest st. (Inr JNull, st)" "[]" "()"
                  "new_service (JStr ''http://hastic'') (answering hastic_info)" new_window
                  JUndefined JUndefined]
  by (simp del: consume.simps add: numeral_2_eq_2)

text \<open>
  C4. What the status poll does when the transport rejects the status request with
  status 404, for a defined id. After a completed transport the dispatcher has already
  swallowed the error, and the element produced is \<^verbatim>\<open>undefined\<close>; the \<^verbatim>\<open>catch\<close> clause of the
  fetch function, which holds the sentinel \<^verbatim>\<open>{status: '404'}\<close>, is not entered. After a
  transport that did not complete the step is rejected with the error of the dispatcher.
  In neither case is the element the sentinel.
\<close>

theorem status_poll_404_yields_undefined:
  assumes "i \<noteq> JUndefined"
    and "http this (server w)
           (requestObject this ''GET'' ''/analyticUnits/status'' (JObj [(''id'', i)])) = (Inl e, srv)"
    and "status e = 404"
  shows "(xhrStatus e = ''complete'' \<longrightarrow>
            next_element (getStatusGenerator i dur) (this, w)
              = (Yielded JUndefined, (getStatusGenerator i dur)\<lparr>position := AtYield\<rparr>,
                 (this\<lparr>isUp := True\<rparr>, w\<lparr>server := srv\<rparr>), [Invoked i []]))
       \<and> (xhrStatus e \<noteq> ''complete'' \<longrightarrow>
            fst (next_element (getStatusGenerator i dur) (this, w))
              = Raised (Error ''Fetching error: 404''))
       \<and> fst (next_element (getStatusGenerator i dur) (this, w))
            \<noteq> Yielded (JObj [(''status'', JStr ''404'')])"
proof -
  have complete: "next_element (getStatusGenerator i dur) (this, w)
              = (Yielded JUndefined, (getStatusGenerator i dur)\<lparr>position := AtYield\<rparr>,
                 (this\<lparr>isUp := True\<rparr>, w\<lparr>server := srv\<rparr>), [Invoked i []])"
    if "xhrStatus e = ''complete''"
    using assms that
    by (simp add: next_element_def getStatusGenerator_def getGenerator_def fetch_and_yield_def
          status_fetch_get get_def analyticRequest_suppressed)
  have other: "fst (next_element (getStatusGenerator i dur) (this, w))
              = Raised (Error ''Fetching error: 404'')"
    if "xhrStatus e \<noteq> ''complete''"
  proof -
    from that have "xhrStatus e \<noteq> ''complete'' \<or> 500 < status e" by simp
    from analyticRequest_failure [OF assms(2) this] assms(1,3)
    show ?thesis
      by (simp add: next_element_def getStatusGenerator_def getGenerator_def fetch_and_yield_def
          status_fetch_get get_def number_toString_examples)
  qed
  from complete other show ?thesis
    by (cases "xhrStatus e = ''complete''") simp_all
qed

theorem status_poll_404_yields_undefined_witness:
  "next_element (getStatusGenerator (JStr ''u1'') 1000)
       (new_service (JStr ''http://hastic'') (rejecting not_found), new_window)
     = (Yielded JUndefined, (getStatusGenerator (JStr ''u1'') 1000)\<lparr>position := AtYield\<rparr>,
        ((new_service (JStr ''http://hastic'') (rejecting not_found))\<lparr>isUp := True\<rparr>, new_window),
        [Invoked (JStr ''u1'') []])"
proof -
  let ?s = "new_service (JStr ''http://hastic'') (rejecting not_found)"
  have defined: "JStr ''u1'' \<noteq> JUndefined" by simp
  have rejected: "http ?s (server new_window)
           (requestObject ?s ''GET'' ''/analyticUnits/status'' (JObj [(''id'', JStr ''u1'')]))
             = (Inl not_found, ())"
    by (simp add: new_service_def rejecting_def)
  have st: "status not_found = 404" by (simp add: not_found_def)
  have "xhrStatus not_found = ''complete''" by (simp add: not_found_def)
  with status_poll_404_yields_undefined [OF defined rejected st, of 1000]
  show ?thesis by (simp add: new_window_def)
qed


end
